theory Spec2Isabelle
  imports Main "HOL-Library.AList"
begin

section \<open>Python strings\<close>

text \<open>
  A Python \<open>str\<close> that the service receives (a request field, the content of a chat
  message) is modelled by \<open>string\<close>. A \<open>char\<close> stands for the code point of the same
  number, so the model covers the texts over U+0000..U+00FF; the classifications below are
  those of CPython's \<open>str.isdigit\<close> and \<open>str.isspace\<close> on that range.
\<close>

definition isdigit_char :: "char \<Rightarrow> bool" where
  \<comment> \<open>the digits \<open>0\<close>..\<open>9\<close>, and superscript two, three and one\<close>
  "isdigit_char c =
     (let n = (of_char c :: nat)
      in (48 \<le> n \<and> n \<le> 57) \<or> n = 0xB2 \<or> n = 0xB3 \<or> n = 0xB9)"

definition isdigit :: "string \<Rightarrow> bool" where
  \<comment> \<open>\<open>str.isdigit\<close>: at least one character, and all of them digits\<close>
  "isdigit s = (s \<noteq> [] \<and> list_all isdigit_char s)"

definition isspace_char :: "char \<Rightarrow> bool" where
  "isspace_char c =
     (let n = (of_char c :: nat)
      in (9 \<le> n \<and> n \<le> 13) \<or> (0x1C \<le> n \<and> n \<le> 0x20) \<or> n = 0x85 \<or> n = 0xA0)"

definition strip :: "string \<Rightarrow> string" where
  \<comment> \<open>\<open>str.strip()\<close> with no argument\<close>
  "strip s = rev (dropWhile isspace_char (rev (dropWhile isspace_char s)))"

definition startswith :: "string \<Rightarrow> string \<Rightarrow> bool" where
  "startswith s p = (take (length p) s = p)"

definition endswith :: "string \<Rightarrow> string \<Rightarrow> bool" where
  "endswith s p = (length p \<le> length s \<and> drop (length s - length p) s = p)"

definition remove_commas :: "string \<Rightarrow> string" where
  \<comment> \<open>\<open>v.replace(",", "")\<close>\<close>
  "remove_commas v = filter (\<lambda>c. c \<noteq> CHR '','') v"


section \<open>The lead and its validation\<close>

text \<open>
  \<open>class Lead(BaseModel)\<close>: four required \<open>str\<close> fields and four \<open>Optional[str]\<close> fields
  with default \<open>None\<close>. The record is the validated object that the pipeline receives.
\<close>

record Lead =
  name :: string
  income :: string
  savings :: string
  credit_score :: "string option"
  dob :: "string option"
  lump_sum :: "string option"
  monthly_contribution :: "string option"
  goals :: string

text \<open>
  A failed field of the request: the field is required and missing, or one of the two
  validators raised \<open>ValueError\<close> with the given message.
\<close>

datatype field_error = field_required string | value_error string string

definition check_numeric :: "string \<Rightarrow> string + string" where
  \<comment> \<open>the validator of \<open>income\<close> and \<open>savings\<close>; \<open>Inl\<close> is the \<open>ValueError\<close>\<close>
  "check_numeric v =
     (if \<not> isdigit (remove_commas v)
      then Inl ''Must be a numeric value (commas allowed)''
      else Inr v)"

definition check_numeric_optional :: "string option \<Rightarrow> string + string option" where
  \<comment> \<open>the validator of \<open>credit_score\<close>, \<open>lump_sum\<close> and \<open>monthly_contribution\<close>
      (\<open>pre=True, always=True\<close>: it also runs when the field is absent)\<close>
  "check_numeric_optional v =
     (case v of
        None \<Rightarrow> Inr None
      | Some s \<Rightarrow>
          if s = [] then Inr None
          else if \<not> isdigit (remove_commas s)
          then Inl ''Must be a numeric value (commas allowed) or empty''
          else Inr v)"

text \<open>
  The request body is a mapping from field names to texts; a field that is missing or
  \<open>null\<close> is \<open>None\<close>. Each field is validated on its own and the errors of all fields are
  collected, in the order of the class.
\<close>

definition required_str :: "(string \<rightharpoonup> string) \<Rightarrow> string \<Rightarrow> field_error list + string" where
  "required_str body f =
     (case body f of None \<Rightarrow> Inl [field_required f] | Some v \<Rightarrow> Inr v)"

definition required_numeric :: "(string \<rightharpoonup> string) \<Rightarrow> string \<Rightarrow> field_error list + string" where
  "required_numeric body f =
     (case body f of
        None \<Rightarrow> Inl [field_required f]
      | Some v \<Rightarrow> (case check_numeric v of
                    Inl msg \<Rightarrow> Inl [value_error f msg]
                  | Inr w \<Rightarrow> Inr w))"

definition optional_numeric ::
  "(string \<rightharpoonup> string) \<Rightarrow> string \<Rightarrow> field_error list + string option" where
  "optional_numeric body f =
     (case check_numeric_optional (body f) of
        Inl msg \<Rightarrow> Inl [value_error f msg]
      | Inr w \<Rightarrow> Inr w)"

definition errors_of :: "'e list + 'a \<Rightarrow> 'e list" where
  "errors_of r = (case r of Inl es \<Rightarrow> es | Inr _ \<Rightarrow> [])"

definition Lead_validate :: "(string \<rightharpoonup> string) \<Rightarrow> field_error list + Lead" where
  "Lead_validate body =
     (let n = required_str body ''name'';
          i = required_numeric body ''income'';
          s = required_numeric body ''savings'';
          c = optional_numeric body ''credit_score'';
          l = optional_numeric body ''lump_sum'';
          m = optional_numeric body ''monthly_contribution'';
          g = required_str body ''goals''
      in case (n, i, s, c, l, m, g) of
           (Inr n', Inr i', Inr s', Inr c', Inr l', Inr m', Inr g') \<Rightarrow>
             Inr \<lparr>name = n', income = i', savings = s', credit_score = c',
                  dob = body ''dob'', lump_sum = l', monthly_contribution = m',
                  goals = g'\<rparr>
         | _ \<Rightarrow>
             Inl (errors_of n @ errors_of i @ errors_of s @ errors_of c @
                  errors_of l @ errors_of m @ errors_of g))"

text \<open>
  The two readings of "the validator accepts". The numeric fields that are present are
  \<open>income\<close> and \<open>savings\<close> when given, and each optional numeric field that is given and
  not empty. \<open>matches_digits_commas\<close> is the regular expression \<open>^[0-9,]+$\<close> of the
  specification; \<open>spec_accepts\<close> follows the specification's words and \<open>isdigit_accepts\<close>
  differs from it in the test of a present numeric field only.
\<close>

definition required_fields :: "string list" where
  "required_fields = [''name'', ''income'', ''savings'', ''goals'']"

definition present_optional :: "(string \<rightharpoonup> string) \<Rightarrow> string \<Rightarrow> string list" where
  "present_optional body f =
     (case body f of None \<Rightarrow> [] | Some v \<Rightarrow> if v = [] then [] else [v])"

definition present_required :: "(string \<rightharpoonup> string) \<Rightarrow> string \<Rightarrow> string list" where
  "present_required body f = (case body f of None \<Rightarrow> [] | Some v \<Rightarrow> [v])"

definition present_numeric :: "(string \<rightharpoonup> string) \<Rightarrow> string list" where
  "present_numeric body =
     present_required body ''income'' @ present_required body ''savings'' @
     present_optional body ''credit_score'' @ present_optional body ''lump_sum'' @
     present_optional body ''monthly_contribution''"

definition matches_digits_commas :: "string \<Rightarrow> bool" where
  "matches_digits_commas s = (s \<noteq> [] \<and> list_all (\<lambda>c. c \<in> set ''0123456789,'') s)"

definition spec_accepts :: "(string \<rightharpoonup> string) \<Rightarrow> bool" where
  "spec_accepts body =
     (list_all (\<lambda>f. body f \<noteq> None) required_fields \<and>
      list_all (\<lambda>v. matches_digits_commas (remove_commas v)) (present_numeric body))"

definition isdigit_accepts :: "(string \<rightharpoonup> string) \<Rightarrow> bool" where
  "isdigit_accepts body =
     (list_all (\<lambda>f. body f \<noteq> None) required_fields \<and>
      list_all (\<lambda>v. isdigit (remove_commas v)) (present_numeric body))"

definition accepted :: "field_error list + Lead \<Rightarrow> bool" where
  "accepted r = (case r of Inl _ \<Rightarrow> False | Inr _ \<Rightarrow> True)"


section \<open>Python values and \<open>json.loads\<close>\<close>

text \<open>
  The values that \<open>json.loads\<close> returns and that \<open>results: Dict[str, Any]\<close> stores. A decoded
  \<open>str\<close> is the list of its code points, since a \<open>\uXXXX\<close> escape can name any of them. A
  \<open>dict\<close> is the list of its items in insertion order, with distinct keys. A \<open>float\<close> is
  kept as the literal it was read from: the conversion of a decimal literal to a double is
  not modelled, and the two observations the program can make of a float, its truth value
  and its \<open>repr\<close>, are parameters (\<open>pyfloat\<close> below).
\<close>

datatype pyval =
    PyNone
  | PyBool bool
  | PyInt int
  | PyFloat string
  | PyStr "nat list"
  | PyList "pyval list"
  | PyDict "(nat list \<times> pyval) list"

definition cps :: "string \<Rightarrow> nat list" where
  \<comment> \<open>the code points of a text\<close>
  "cps s = map of_char s"

text \<open>
  \<open>json.loads\<close> is CPython's decoder with its default settings (\<open>strict\<close>, no hooks): the
  standard library's \<open>json.decoder\<close> and \<open>json.scanner\<close>. The text is cut into tokens, with
  the whitespace \<open>' \t\n\r'\<close> skipped between them, and the tokens drive a stack of the
  arrays and objects that are open. Every way in which the decoder rejects a text is the one
  error \<open>JSONDecodeError\<close>; its message and position are not modelled (the pipeline does not
  read them). The limits of the interpreter (recursion depth, digits of an \<open>int\<close>) are not
  modelled either.
\<close>

definition hexval :: "char \<Rightarrow> nat option" where
  "hexval c =
     (let n = (of_char c :: nat)
      in if 48 \<le> n \<and> n \<le> 57 then Some (n - 48)
         else if 97 \<le> n \<and> n \<le> 102 then Some (n - 87)
         else if 65 \<le> n \<and> n \<le> 70 then Some (n - 55)
         else None)"

fun decode_uXXXX :: "string \<Rightarrow> nat option" where
  "decode_uXXXX (a # b # c # d # _) =
     (case (hexval a, hexval b, hexval c, hexval d) of
        (Some w, Some x, Some y, Some z) \<Rightarrow> Some (((w * 16 + x) * 16 + y) * 16 + z)
      | _ \<Rightarrow> None)"
| "decode_uXXXX _ = None"

definition BACKSLASH :: "char \<Rightarrow> nat option" where
  "BACKSLASH e =
     (if e = CHR 0x22 then Some 0x22
      else if e = CHR 0x5C then Some 0x5C
      else if e = CHR ''/'' then Some 0x2F
      else if e = CHR ''b'' then Some 8
      else if e = CHR ''f'' then Some 12
      else if e = CHR ''n'' then Some 10
      else if e = CHR ''r'' then Some 13
      else if e = CHR ''t'' then Some 9
      else None)"

definition scan_escape :: "string \<Rightarrow> (nat \<times> nat) option" where
  \<comment> \<open>the text after a backslash: the character it denotes and the number of characters
      read; a high surrogate followed by a low one is a single character\<close>
  "scan_escape s =
     (case s of
        [] \<Rightarrow> None
      | esc # es \<Rightarrow>
          if esc \<noteq> CHR ''u'' then map_option (\<lambda>ch. (ch, 1)) (BACKSLASH esc)
          else
            (case decode_uXXXX es of
               None \<Rightarrow> None
             | Some uni \<Rightarrow>
                 if 0xD800 \<le> uni \<and> uni \<le> 0xDBFF \<and> take 2 (drop 4 es) = [CHR 0x5C, CHR ''u'']
                 then (case decode_uXXXX (drop 6 es) of
                         None \<Rightarrow> None
                       | Some uni2 \<Rightarrow>
                           if 0xDC00 \<le> uni2 \<and> uni2 \<le> 0xDFFF
                           then Some (0x10000 + ((uni - 0xD800) * 1024 + (uni2 - 0xDC00)), 11)
                           else Some (uni, 5))
                 else Some (uni, 5)))"

fun scanstring :: "string \<Rightarrow> (nat list \<times> nat) option" where
  \<comment> \<open>the text after an opening quote: the decoded string and the number of characters
      read, the closing quote included\<close>
  "scanstring [] = None"
| "scanstring (c # cs) =
     (if c = CHR 0x22 then Some ([], 1)
      else if c = CHR 0x5C then
        (case scan_escape cs of
           None \<Rightarrow> None
         | Some (ch, n) \<Rightarrow>
             map_option (\<lambda>(chunks, end). (ch # chunks, 1 + n + end)) (scanstring (drop n cs)))
      else if (of_char c :: nat) < 0x20 then None
      else map_option (\<lambda>(chunks, end). (of_char c # chunks, 1 + end)) (scanstring cs))"

text \<open>
  \<open>NUMBER_RE\<close>, \<open>(-?(?:0|[1-9]\d*))(\.\d+)?([eE][-+]?\d+)?\<close>, group by group; a group
  that does not match is the empty text.
\<close>

definition digits :: "string \<Rightarrow> string" where
  "digits s = takeWhile (\<lambda>c. c \<in> set ''0123456789'') s"

definition match_integer :: "string \<Rightarrow> string option" where
  "match_integer s =
     (let sign = (if take 1 s = ''-'' then ''-'' else [])
      in case drop (length sign) s of
           [] \<Rightarrow> None
         | d # r \<Rightarrow>
             if d = CHR ''0'' then Some (sign @ ''0'')
             else if d \<in> set ''123456789'' then Some (sign @ d # digits r)
             else None)"

definition match_frac :: "string \<Rightarrow> string" where
  "match_frac s =
     (case s of
        [] \<Rightarrow> []
      | c # r \<Rightarrow> if c = CHR ''.'' \<and> digits r \<noteq> [] then c # digits r else [])"

definition match_exp :: "string \<Rightarrow> string" where
  "match_exp s =
     (case s of
        [] \<Rightarrow> []
      | e # r \<Rightarrow>
          if e \<in> set ''eE'' then
            (let sign = (if take 1 r = ''-'' \<or> take 1 r = ''+'' then take 1 r else [])
             in if digits (drop (length sign) r) \<noteq> []
                then e # sign @ digits (drop (length sign) r)
                else [])
          else [])"

definition match_number :: "string \<Rightarrow> (string \<times> string \<times> string) option" where
  "match_number s =
     (case match_integer s of
        None \<Rightarrow> None
      | Some integer \<Rightarrow>
          (let frac = match_frac (drop (length integer) s);
               exp = match_exp (drop (length integer + length frac) s)
           in Some (integer, frac, exp)))"

definition parse_int :: "string \<Rightarrow> int" where
  \<comment> \<open>\<open>int(integer)\<close> on a text that \<open>match_integer\<close> returned\<close>
  "parse_int integer =
     (let magnitude = foldl (\<lambda>a c. a * 10 + (int (of_char c) - 48)) 0
                        (filter (\<lambda>c. c \<noteq> CHR ''-'') integer)
      in if take 1 integer = ''-'' then - magnitude else magnitude)"

datatype token =
    LBrace | RBrace | LBracket | RBracket | Colon | Comma
  | TString "nat list"
  | TAtom pyval

definition WHITESPACE_STR :: string where
  "WHITESPACE_STR = [CHR '' '', CHR 0x09, CHR 0x0A, CHR 0x0D]"

fun tokenize :: "string \<Rightarrow> token list option" where
  "tokenize [] = Some []"
| "tokenize (c # cs) =
     (if c \<in> set WHITESPACE_STR then tokenize cs
      else if c = CHR ''{'' then map_option (Cons LBrace) (tokenize cs)
      else if c = CHR ''}'' then map_option (Cons RBrace) (tokenize cs)
      else if c = CHR ''['' then map_option (Cons LBracket) (tokenize cs)
      else if c = CHR '']'' then map_option (Cons RBracket) (tokenize cs)
      else if c = CHR '':'' then map_option (Cons Colon) (tokenize cs)
      else if c = CHR '','' then map_option (Cons Comma) (tokenize cs)
      else if c = CHR 0x22 then
        (case scanstring cs of
           None \<Rightarrow> None
         | Some (s, end) \<Rightarrow> map_option (Cons (TString s)) (tokenize (drop end cs)))
      else if take 4 (c # cs) = ''null'' then
        map_option (Cons (TAtom PyNone)) (tokenize (drop 3 cs))
      else if take 4 (c # cs) = ''true'' then
        map_option (Cons (TAtom (PyBool True))) (tokenize (drop 3 cs))
      else if take 5 (c # cs) = ''false'' then
        map_option (Cons (TAtom (PyBool False))) (tokenize (drop 4 cs))
      else
        (case match_number (c # cs) of
           Some (integer, frac, exp) \<Rightarrow>
             map_option
               (Cons (TAtom (if frac \<noteq> [] \<or> exp \<noteq> []
                             then PyFloat (integer @ frac @ exp)
                             else PyInt (parse_int integer))))
               (tokenize (drop (length (integer @ frac @ exp) - 1) cs))
         | None \<Rightarrow>
             if take 3 (c # cs) = ''NaN'' then
               map_option (Cons (TAtom (PyFloat ''NaN''))) (tokenize (drop 2 cs))
             else if take 8 (c # cs) = ''Infinity'' then
               map_option (Cons (TAtom (PyFloat ''Infinity''))) (tokenize (drop 7 cs))
             else if take 9 (c # cs) = ''-Infinity'' then
               map_option (Cons (TAtom (PyFloat ''-Infinity''))) (tokenize (drop 8 cs))
             else None))"

text \<open>
  The arrays and objects that are open, innermost first, each with what it holds so far
  (an object also with the key whose value is being read), and what the decoder expects
  next. An object is built from its pairs by \<open>dict(pairs)\<close>: a key that comes again keeps
  its first place and takes the later value.
\<close>

datatype frame =
    ArrayFrame "pyval list"
  | ObjectFrame "(nat list \<times> pyval) list" "nat list"

datatype expect =
    Value | ValueOrEnd | KeyOrEnd | Key | ColonDelimiter | CommaOrEnd
  | EndOfDocument pyval

definition dict :: "(nat list \<times> pyval) list \<Rightarrow> (nat list \<times> pyval) list" where
  "dict pairs = foldl (\<lambda>d (k, v). AList.update k v d) [] pairs"

fun finish_value :: "pyval \<Rightarrow> frame list \<Rightarrow> expect \<times> frame list" where
  "finish_value v [] = (EndOfDocument v, [])"
| "finish_value v (ArrayFrame values # st) = (CommaOrEnd, ArrayFrame (values @ [v]) # st)"
| "finish_value v (ObjectFrame pairs key # st) =
     (CommaOrEnd, ObjectFrame (pairs @ [(key, v)]) key # st)"

fun begin_value :: "token \<Rightarrow> frame list \<Rightarrow> (expect \<times> frame list) option" where
  "begin_value LBrace st = Some (KeyOrEnd, ObjectFrame [] [] # st)"
| "begin_value LBracket st = Some (ValueOrEnd, ArrayFrame [] # st)"
| "begin_value (TString s) st = Some (finish_value (PyStr s) st)"
| "begin_value (TAtom v) st = Some (finish_value v st)"
| "begin_value _ st = None"

fun step :: "expect \<times> frame list \<Rightarrow> token \<Rightarrow> (expect \<times> frame list) option" where
  "step (Value, st) t = begin_value t st"
| "step (ValueOrEnd, ArrayFrame values # st) RBracket = Some (finish_value (PyList values) st)"
| "step (ValueOrEnd, st) t = begin_value t st"
| "step (KeyOrEnd, ObjectFrame pairs key # st) RBrace =
     Some (finish_value (PyDict (dict pairs)) st)"
| "step (KeyOrEnd, ObjectFrame pairs key # st) (TString k) =
     Some (ColonDelimiter, ObjectFrame pairs k # st)"
| "step (Key, ObjectFrame pairs key # st) (TString k) =
     Some (ColonDelimiter, ObjectFrame pairs k # st)"
| "step (ColonDelimiter, st) Colon = Some (Value, st)"
| "step (CommaOrEnd, ArrayFrame values # st) Comma = Some (Value, ArrayFrame values # st)"
| "step (CommaOrEnd, ArrayFrame values # st) RBracket =
     Some (finish_value (PyList values) st)"
| "step (CommaOrEnd, ObjectFrame pairs key # st) Comma =
     Some (Key, ObjectFrame pairs key # st)"
| "step (CommaOrEnd, ObjectFrame pairs key # st) RBrace =
     Some (finish_value (PyDict (dict pairs)) st)"
| "step _ _ = None"

fun run :: "expect \<times> frame list \<Rightarrow> token list \<Rightarrow> (expect \<times> frame list) option" where
  "run s [] = Some s"
| "run s (t # ts) = (case step s t of None \<Rightarrow> None | Some s' \<Rightarrow> run s' ts)"

datatype JSONDecodeError = JSONDecodeError

definition json_loads :: "string \<Rightarrow> JSONDecodeError + pyval" where
  "json_loads s =
     (case tokenize s of
        None \<Rightarrow> Inl JSONDecodeError
      | Some ts \<Rightarrow>
          (case run (Value, []) ts of
             Some (EndOfDocument obj, _) \<Rightarrow> Inr obj
           | _ \<Rightarrow> Inl JSONDecodeError))"


text \<open>
  An invariant of the decoder on a text that opens with a brace: the outermost open
  container is an object, until the document ends with a \<open>dict\<close>.
\<close>

definition bottom_is_object :: "frame list \<Rightarrow> bool" where
  "bottom_is_object st =
     (st \<noteq> [] \<and> (case last st of ObjectFrame pairs key \<Rightarrow> True | ArrayFrame values \<Rightarrow> False))"

definition is_dict :: "pyval \<Rightarrow> bool" where
  "is_dict v = (case v of PyDict d \<Rightarrow> True | _ \<Rightarrow> False)"

fun object_document :: "expect \<times> frame list \<Rightarrow> bool" where
  "object_document (EndOfDocument v, st) = is_dict v"
| "object_document (e, st) = bottom_is_object st"


section \<open>Truth values and \<open>json.dumps\<close>\<close>

record pyfloat =
  float_repr :: "string \<Rightarrow> string"
  float_bool :: "string \<Rightarrow> bool"

fun truthy :: "pyfloat \<Rightarrow> pyval \<Rightarrow> bool" where
  \<comment> \<open>\<open>if parsed_content:\<close>\<close>
  "truthy fl PyNone = False"
| "truthy fl (PyBool b) = b"
| "truthy fl (PyInt i) = (i \<noteq> 0)"
| "truthy fl (PyFloat x) = float_bool fl x"
| "truthy fl (PyStr s) = (s \<noteq> [])"
| "truthy fl (PyList vs) = (vs \<noteq> [])"
| "truthy fl (PyDict ps) = (ps \<noteq> [])"

text \<open>
  \<open>json.dumps\<close> with its default settings: \<open>ensure_ascii\<close>, the separators \<open>', '\<close> and
  \<open>': '\<close>, no indentation, keys in the order of the \<open>dict\<close>.
\<close>

definition hex4 :: "nat \<Rightarrow> string" where
  \<comment> \<open>\<open>'{0:04x}'.format(n)\<close>, for \<open>n < 0x10000\<close>\<close>
  "hex4 n = map (\<lambda>k. ''0123456789abcdef'' ! ((n div 16 ^ k) mod 16)) [3, 2, 1, 0]"

definition escape_ascii :: "nat \<Rightarrow> string" where
  \<comment> \<open>what \<open>ESCAPE_ASCII\<close> writes for one character\<close>
  "escape_ascii n =
     (if n = 0x5C then [CHR 0x5C, CHR 0x5C]
      else if n = 0x22 then [CHR 0x5C, CHR 0x22]
      else if n = 8 then [CHR 0x5C, CHR ''b'']
      else if n = 12 then [CHR 0x5C, CHR ''f'']
      else if n = 10 then [CHR 0x5C, CHR ''n'']
      else if n = 13 then [CHR 0x5C, CHR ''r'']
      else if n = 9 then [CHR 0x5C, CHR ''t'']
      else if 0x20 \<le> n \<and> n \<le> 0x7E then [char_of n]
      else if n < 0x10000 then [CHR 0x5C, CHR ''u''] @ hex4 n
      else
        (let m = n - 0x10000;
             s1 = 0xD800 + (m div 1024) mod 1024;
             s2 = 0xDC00 + m mod 1024
         in [CHR 0x5C, CHR ''u''] @ hex4 s1 @ [CHR 0x5C, CHR ''u''] @ hex4 s2))"

definition encode_basestring_ascii :: "nat list \<Rightarrow> string" where
  "encode_basestring_ascii s = [CHR 0x22] @ concat (map escape_ascii s) @ [CHR 0x22]"

fun str_nat :: "nat \<Rightarrow> string" where
  "str_nat n =
     (if n < 10 then [''0123456789'' ! n]
      else str_nat (n div 10) @ [''0123456789'' ! (n mod 10)])"

definition str_int :: "int \<Rightarrow> string" where
  "str_int i = (if i < 0 then ''-'' @ str_nat (nat (- i)) else str_nat (nat i))"

fun join :: "string \<Rightarrow> string list \<Rightarrow> string" where
  \<comment> \<open>\<open>sep.join(xs)\<close>\<close>
  "join sep [] = []"
| "join sep [x] = x"
| "join sep (x # y # ys) = x @ sep @ join sep (y # ys)"

fun json_dumps :: "pyfloat \<Rightarrow> pyval \<Rightarrow> string" where
  "json_dumps fl PyNone = ''null''"
| "json_dumps fl (PyBool b) = (if b then ''true'' else ''false'')"
| "json_dumps fl (PyInt i) = str_int i"
| "json_dumps fl (PyFloat x) = float_repr fl x"
| "json_dumps fl (PyStr s) = encode_basestring_ascii s"
| "json_dumps fl (PyList vs) = ''['' @ join '', '' (map (json_dumps fl) vs) @ '']''"
| "json_dumps fl (PyDict ps) =
     ''{'' @ join '', '' (map (\<lambda>(k, v). encode_basestring_ascii k @ '': '' @ json_dumps fl v) ps)
     @ ''}''"


section \<open>The transcript and the extraction of the replies\<close>

text \<open>
  One entry of \<open>groupchat.messages\<close>. The chat framework stores every message with a
  \<open>role\<close> and the \<open>name\<close> of its speaker; \<open>msg_content\<close> is \<open>None\<close> when the entry has no
  \<open>content\<close> key, which \<open>message.get('content', '')\<close> reads as the empty text.
\<close>

record chat_message =
  msg_role :: string
  msg_name :: string
  msg_content :: "string option"

definition extract_message ::
  "pyfloat \<Rightarrow> (string \<rightharpoonup> pyval) \<Rightarrow> chat_message \<Rightarrow> (string \<rightharpoonup> pyval)" where
  \<comment> \<open>the body of the loop over \<open>groupchat.messages\<close>\<close>
  "extract_message fl results message =
     (if msg_role message = ''user'' \<and> msg_name message \<noteq> ''User'' then
        (let agent_name = msg_name message;
             content = (case msg_content message of None \<Rightarrow> [] | Some c \<Rightarrow> c)
         in case (if startswith (strip content) ''{'' \<and> endswith (strip content) ''}''
                  then json_loads content
                  else Inr (PyDict [])) of
              Inr parsed_content \<Rightarrow>
                if truthy fl parsed_content
                then results(agent_name \<mapsto> parsed_content)
                else results(agent_name \<mapsto>
                       PyDict [(cps ''error'', PyStr (cps ''Malformed JSON from AI''))])
            | Inl JSONDecodeError \<Rightarrow>
                results(agent_name \<mapsto>
                  PyDict [(cps ''error'', PyStr (cps ''Invalid JSON from AI''))]))
      else results)"

definition extract_responses :: "pyfloat \<Rightarrow> chat_message list \<Rightarrow> (string \<rightharpoonup> pyval)" where
  \<comment> \<open>\<open>results = {}\<close>, then the loop\<close>
  "extract_responses fl messages = foldl (extract_message fl) Map.empty messages"

definition advisor_authored :: "chat_message \<Rightarrow> bool" where
  \<comment> \<open>the test of the loop: a reply of an advisor, not a turn of the driving participant\<close>
  "advisor_authored message = (msg_role message = ''user'' \<and> msg_name message \<noteq> ''User'')"

definition prefilter :: "string \<Rightarrow> bool" where
  \<comment> \<open>the structural test made before decoding\<close>
  "prefilter content = (startswith (strip content) ''{'' \<and> endswith (strip content) ''}'')"

definition error_sentinel :: "string \<Rightarrow> pyval" where
  "error_sentinel reason = PyDict [(cps ''error'', PyStr (cps reason))]"

definition advisor_turn :: "string \<Rightarrow> string \<Rightarrow> chat_message" where
  \<comment> \<open>the message that the framework stores for a reply of the agent\<close>
  "advisor_turn agent raw_text =
     \<lparr>msg_role = ''user'', msg_name = agent, msg_content = Some raw_text\<rparr>"


section \<open>The combined result\<close>

definition dict_get :: "(string \<rightharpoonup> pyval) \<Rightarrow> string \<Rightarrow> pyval \<Rightarrow> pyval" where
  \<comment> \<open>\<open>results.get(key, default)\<close>\<close>
  "dict_get d k dflt = (case d k of None \<Rightarrow> dflt | Some v \<Rightarrow> v)"

definition combine_results :: "(string \<rightharpoonup> pyval) \<Rightarrow> pyval" where
  \<comment> \<open>the \<open>dict\<close> \<open>ai_analysis\<close>\<close>
  "combine_results results =
     PyDict
       [(cps ''qualification'',
           dict_get results ''LeadQualificationAgent''
             (PyDict [(cps ''priority'', PyStr (cps ''N/A'')),
                      (cps ''reasoning'', PyStr (cps ''N/A''))])),
        (cps ''financial_strategy'',
           dict_get results ''FinancialStrategyAgent''
             (PyDict [(cps ''budget'', PyStr (cps ''N/A'')),
                      (cps ''investment'', PyStr (cps ''N/A'')),
                      (cps ''savings'', PyStr (cps ''N/A''))])),
        (cps ''policy'',
           dict_get results ''PolicyAdvisorAgent''
             (PyDict [(cps ''policy_type'', PyStr (cps ''N/A'')),
                      (cps ''reasoning'', PyStr (cps ''N/A''))])),
        (cps ''anti_iul_critique'',
           dict_get results ''AntiIULAgent''
             (PyDict [(cps ''critique'', PyStr (cps ''N/A''))])),
        (cps ''risk_assessment'',
           dict_get results ''RiskAssessmentAgent''
             (PyDict [(cps ''risk_tolerance'', PyStr (cps ''N/A'')),
                      (cps ''reasoning'', PyStr (cps ''N/A''))])),
        (cps ''followup'',
           dict_get results ''FollowupAgent''
             (PyDict [(cps ''subject'', PyStr (cps ''N/A'')),
                      (cps ''body'', PyStr (cps ''N/A''))]))]"

text \<open>
  The roster as the agents declare it: the key of each agent in the combined result, and
  the fields of the JSON object that its \<open>system_message\<close> asks for.
\<close>

definition roles :: "(string \<times> string) list" where
  "roles =
     [(''qualification'', ''LeadQualificationAgent''),
      (''financial_strategy'', ''FinancialStrategyAgent''),
      (''policy'', ''PolicyAdvisorAgent''),
      (''anti_iul_critique'', ''AntiIULAgent''),
      (''risk_assessment'', ''RiskAssessmentAgent''),
      (''followup'', ''FollowupAgent'')]"

definition output_fields :: "string \<Rightarrow> string list" where
  "output_fields agent =
     (if agent = ''LeadQualificationAgent'' then [''priority'', ''reasoning'']
      else if agent = ''FinancialStrategyAgent'' then [''budget'', ''investment'', ''savings'']
      else if agent = ''PolicyAdvisorAgent'' then [''policy_type'', ''reasoning'']
      else if agent = ''AntiIULAgent'' then [''critique'']
      else if agent = ''RiskAssessmentAgent'' then [''risk_tolerance'', ''reasoning'']
      else if agent = ''FollowupAgent'' then [''subject'', ''body'']
      else [])"

definition placeholder :: "string \<Rightarrow> pyval" where
  \<comment> \<open>every declared field of the agent, set to \<open>"N/A"\<close>\<close>
  "placeholder agent = PyDict (map (\<lambda>f. (cps f, PyStr (cps ''N/A''))) (output_fields agent))"


section \<open>The pipeline\<close>

text \<open>
  What can be raised inside \<open>process_lead_pipeline\<close>, by the class that decides which
  handler takes it: an \<open>HTTPException\<close> with its \<open>detail\<close>, any other \<open>Exception\<close> with its
  text, or an exception that is not an \<open>Exception\<close> (a cancellation, an interrupt), which no
  handler of the pipeline takes.
\<close>

datatype exc = HTTPException string | Exception string | BaseException string

record response =
  status :: string
  message :: string
  ai_analysis :: "string option"

text \<open>
  The two collaborators. \<open>a_initiate_chat\<close> stands for the whole conversation started with
  the initial message: it raises, or leaves a transcript in \<open>groupchat.messages\<close>.
  \<open>append_row\<close> is the spreadsheet: given the row, it raises or returns. The pipeline's
  effect on the ledger is the list of the rows it handed to \<open>append_row\<close>.
\<close>

record env =
  a_initiate_chat :: "string \<Rightarrow> exc + chat_message list"
  append_row :: "string list \<Rightarrow> exc option"

definition or_NA :: "string option \<Rightarrow> string" where
  \<comment> \<open>\<open>x if x else "N/A"\<close>\<close>
  "or_NA x = (case x of None \<Rightarrow> ''N/A'' | Some s \<Rightarrow> if s \<noteq> [] then s else ''N/A'')"

definition line :: "string \<Rightarrow> string" where
  "line s = s @ [CHR 0x0A]"

definition initial_message :: "Lead \<Rightarrow> string" where
  "initial_message lead =
     line ''Process the following lead and generate structured responses as follows:'' @
     line ''- LeadQualificationAgent: Assess lead priority (high/low) and provide reasoning.'' @
     line ''- FinancialStrategyAgent: Provide budgeting, investment, and savings strategies.'' @
     line ''- RiskAssessmentAgent: Evaluate risk tolerance, considering lump sum/monthly contributions.'' @
     line ''- PolicyAdvisorAgent: Recommend the most suitable life insurance policy.'' @
     line ''- AntiIULAgent: Critique any IUL or VUL policies.'' @
     line (line ''- FollowupAgent: Draft a follow-up email.'') @
     line ''Lead Details:'' @
     line (''Name: '' @ name lead) @
     line (''Income: '' @ income lead) @
     line (''Savings: '' @ savings lead) @
     line (''Credit Score: '' @ or_NA (credit_score lead)) @
     line (''Date of Birth/Age: '' @ or_NA (dob lead)) @
     line (''Lump Sum Contribution: '' @ or_NA (lump_sum lead)) @
     line (''Monthly Contribution: '' @ or_NA (monthly_contribution lead)) @
     line (line (''Goals: '' @ goals lead)) @
     ''TERMINATE''"

definition handle_exception :: "exc \<Rightarrow> exc + response" where
  \<comment> \<open>the two \<open>except\<close> clauses; \<open>Inl\<close> is an exception that leaves the pipeline\<close>
  "handle_exception e =
     (case e of
        HTTPException detail \<Rightarrow>
          Inr \<lparr>status = ''error'', message = detail, ai_analysis = None\<rparr>
      | Exception _ \<Rightarrow>
          Inr \<lparr>status = ''error'', message = ''Internal Server Error.'', ai_analysis = None\<rparr>
      | BaseException _ \<Rightarrow> Inl e)"

definition ledger_row :: "Lead \<Rightarrow> string \<Rightarrow> string list" where
  \<comment> \<open>the argument of \<open>sheet.append_row\<close>\<close>
  "ledger_row lead analysis_text =
     [name lead,
      income lead,
      savings lead,
      or_NA (credit_score lead),
      or_NA (dob lead),
      or_NA (lump_sum lead),
      or_NA (monthly_contribution lead),
      goals lead,
      analysis_text]"

definition process_lead_pipeline ::
  "pyfloat \<Rightarrow> env \<Rightarrow> Lead \<Rightarrow> (exc + response) \<times> string list list" where
  \<comment> \<open>the response (or the exception that escapes), and the rows handed to the ledger\<close>
  "process_lead_pipeline fl e lead =
     (case a_initiate_chat e (initial_message lead) of
        Inl ex \<Rightarrow> (handle_exception ex, [])
      | Inr messages \<Rightarrow>
          (let results = extract_responses fl messages;
               analysis = combine_results results;
               row = ledger_row lead (json_dumps fl analysis)
           in case append_row e row of
                Some ex \<Rightarrow> (handle_exception ex, [row])
              | None \<Rightarrow>
                  (Inr \<lparr>status = ''success'',
                        message = ''Lead processed successfully!'',
                        ai_analysis = Some (json_dumps fl analysis)\<rparr>,
                   [row])))"



section \<open>Inputs of the examples\<close>

definition superscript_income :: "string \<rightharpoonup> string" where
  \<comment> \<open>a request whose income is the one character superscript two\<close>
  "superscript_income =
     [''name'' \<mapsto> ''Ann'', ''income'' \<mapsto> [CHR 0xB2], ''savings'' \<mapsto> ''1,000'',
      ''goals'' \<mapsto> ''retire'']"

definition example_body :: "string \<Rightarrow> string \<Rightarrow> (string \<rightharpoonup> string)" where
  "example_body i c =
     [''name'' \<mapsto> ''Ann'', ''income'' \<mapsto> i, ''savings'' \<mapsto> ''1,000'',
      ''credit_score'' \<mapsto> c, ''goals'' \<mapsto> ''retire'']"

definition superscript_free :: "(string \<rightharpoonup> string) \<Rightarrow> bool" where
  \<comment> \<open>no present numeric field holds superscript two, three or one\<close>
  "superscript_free body =
     list_all (list_all (\<lambda>c. c \<notin> set [CHR 0xB2, CHR 0xB3, CHR 0xB9])) (present_numeric body)"

definition example_float :: pyfloat where
  \<comment> \<open>the examples hold no float; any value of \<open>pyfloat\<close> gives the same results\<close>
  "example_float = \<lparr>float_repr = (\<lambda>x. x), float_bool = (\<lambda>x. True)\<rparr>"

definition priority_high_text :: string where
  \<open>priority_high_text = ''{"priority":"high","reasoning":"x"}''\<close>

definition user_turn :: chat_message where
  \<comment> \<open>a turn of the driving participant whose content is a JSON object\<close>
  "user_turn = \<lparr>msg_role = ''user'', msg_name = ''User'', msg_content = Some priority_high_text\<rparr>"

definition two_turns :: "chat_message list" where
  \<comment> \<open>a transcript in which one agent speaks twice\<close>
  "two_turns =
     [advisor_turn ''LeadQualificationAgent'' priority_high_text,
      advisor_turn ''FollowupAgent'' ''{}'',
      advisor_turn ''LeadQualificationAgent'' ''not json'']"

definition all_placeholders :: pyval where
  "all_placeholders =
     PyDict
       [(cps ''qualification'',
           PyDict [(cps ''priority'', PyStr (cps ''N/A'')),
                   (cps ''reasoning'', PyStr (cps ''N/A''))]),
        (cps ''financial_strategy'',
           PyDict [(cps ''budget'', PyStr (cps ''N/A'')),
                   (cps ''investment'', PyStr (cps ''N/A'')),
                   (cps ''savings'', PyStr (cps ''N/A''))]),
        (cps ''policy'',
           PyDict [(cps ''policy_type'', PyStr (cps ''N/A'')),
                   (cps ''reasoning'', PyStr (cps ''N/A''))]),
        (cps ''anti_iul_critique'', PyDict [(cps ''critique'', PyStr (cps ''N/A''))]),
        (cps ''risk_assessment'',
           PyDict [(cps ''risk_tolerance'', PyStr (cps ''N/A'')),
                   (cps ''reasoning'', PyStr (cps ''N/A''))]),
        (cps ''followup'',
           PyDict [(cps ''subject'', PyStr (cps ''N/A'')),
                   (cps ''body'', PyStr (cps ''N/A''))])]"

definition all_placeholders_text :: string where
  \<open>all_placeholders_text =
     ''{"qualification": {"priority": "N/A", "reasoning": "N/A"}, "financial_strategy": {"budget": "N/A", "investment": "N/A", "savings": "N/A"}, "policy": {"policy_type": "N/A", "reasoning": "N/A"}, "anti_iul_critique": {"critique": "N/A"}, "risk_assessment": {"risk_tolerance": "N/A", "reasoning": "N/A"}, "followup": {"subject": "N/A", "body": "N/A"}}''\<close>

definition example_lead :: Lead where
  \<comment> \<open>a validated lead with every optional field absent or empty\<close>
  "example_lead =
     \<lparr>name = ''Ann'', income = ''50,000'', savings = ''1,000'', credit_score = None,
      dob = Some [], lump_sum = None, monthly_contribution = None, goals = ''retire''\<rparr>"

definition example_env :: "chat_message list \<Rightarrow> exc option \<Rightarrow> env" where
  \<comment> \<open>a conversation that leaves the given transcript, and a ledger with the given outcome\<close>
  "example_env messages outcome =
     \<lparr>a_initiate_chat = (\<lambda>initial. Inr messages), append_row = (\<lambda>row. outcome)\<rparr>"


section \<open>The validator\<close>

lemmas validate_defs =
  accepted_def Lead_validate_def required_str_def required_numeric_def optional_numeric_def
  check_numeric_def check_numeric_optional_def

lemmas accepts_defs =
  required_fields_def present_numeric_def present_required_def present_optional_def

text \<open>
  C1: for every request, the validator accepts if and only if \<open>name\<close>, \<open>income\<close>, \<open>savings\<close>
  and \<open>goals\<close> are present and every present numeric field, after the commas are removed,
  matches \<open>^[0-9,]+$\<close>. The code departs from this: the validators test the field with
  \<open>str.isdigit\<close>, which also holds of superscript two, so a request whose income is that one
  character is accepted although the expression does not match it and the validator's own
  message asks for a numeric value.
\<close>

theorem Lead_validate_regex_counterexample:
  "accepted (Lead_validate superscript_income) \<and> \<not> spec_accepts superscript_income"
  by (simp add: superscript_income_def validate_defs spec_accepts_def accepts_defs
      isdigit_def isdigit_char_def matches_digits_commas_def remove_commas_def)

text \<open>
  What the validator accepts, in terms of \<open>str.isdigit\<close>, and how far the expression
  describes it: every request that the expression admits is accepted, and the two agree on
  every request whose numeric fields hold none of the three superscript digits.
\<close>

lemma Lead_validate_isdigit:
  "accepted (Lead_validate body) \<longleftrightarrow> isdigit_accepts body"
  by (auto simp: validate_defs isdigit_accepts_def accepts_defs Let_def
      split: option.splits sum.splits if_splits)

lemma digit_char_isdigit: "c \<in> set ''0123456789'' \<Longrightarrow> isdigit_char c"
  by (auto simp: isdigit_char_def)

lemma isdigit_char_cases:
  assumes "isdigit_char c"
  shows "c \<in> set ''0123456789'' \<or> c \<in> set [CHR 0xB2, CHR 0xB3, CHR 0xB9]"
proof -
  from assms
  have "(48 \<le> (of_char c :: nat) \<and> (of_char c :: nat) \<le> 57) \<or> (of_char c :: nat) = 178
        \<or> (of_char c :: nat) = 179 \<or> (of_char c :: nat) = 185"
    by (simp add: isdigit_char_def Let_def)
  then have "(of_char c :: nat) \<in> set [48, 49, 50, 51, 52, 53, 54, 55, 56, 57, 178, 179, 185]"
    by (auto simp: le_Suc_eq numeral_eq_Suc)
  also have "set [48, 49, 50, 51, 52, 53, 54, 55, 56, 57, 178, 179, 185] =
             (of_char ` set (''0123456789'' @ [CHR 0xB2, CHR 0xB3, CHR 0xB9]) :: nat set)"
    by simp
  finally have "c \<in> set (''0123456789'' @ [CHR 0xB2, CHR 0xB3, CHR 0xB9])"
    by (simp only: inj_image_mem_iff [OF inj_of_char])
  then show ?thesis by simp
qed

lemma matches_imp_isdigit:
  "matches_digits_commas (remove_commas v) \<Longrightarrow> isdigit (remove_commas v)"
  by (auto simp: matches_digits_commas_def isdigit_def remove_commas_def list_all_iff
      intro!: digit_char_isdigit)

lemma isdigit_imp_matches:
  assumes "isdigit (remove_commas v)"
    and "list_all (\<lambda>c. c \<notin> set [CHR 0xB2, CHR 0xB3, CHR 0xB9]) v"
  shows "matches_digits_commas (remove_commas v)"
proof -
  have "c \<in> set ''0123456789,''" if "c \<in> set (remove_commas v)" for c
  proof -
    from that assms(1) have "isdigit_char c" by (simp add: isdigit_def list_all_iff)
    moreover from that assms(2) have "c \<notin> set [CHR 0xB2, CHR 0xB3, CHR 0xB9]"
      by (simp add: remove_commas_def list_all_iff)
    ultimately show ?thesis using isdigit_char_cases [of c] by auto
  qed
  with assms(1) show ?thesis
    by (simp add: matches_digits_commas_def isdigit_def list_all_iff)
qed

lemma spec_accepts_imp_accepted:
  "spec_accepts body \<Longrightarrow> accepted (Lead_validate body)"
  unfolding Lead_validate_isdigit
  by (auto simp: spec_accepts_def isdigit_accepts_def list_all_iff intro: matches_imp_isdigit)

lemma Lead_validate_regex_without_superscripts:
  assumes "superscript_free body"
  shows "accepted (Lead_validate body) \<longleftrightarrow> spec_accepts body"
proof -
  have same: "isdigit (remove_commas v) \<longleftrightarrow> matches_digits_commas (remove_commas v)"
    if "v \<in> set (present_numeric body)" for v
  proof -
    from that assms have "list_all (\<lambda>c. c \<notin> set [CHR 0xB2, CHR 0xB3, CHR 0xB9]) v"
      by (simp add: superscript_free_def list_all_iff)
    then show ?thesis
      by (blast intro: isdigit_imp_matches matches_imp_isdigit)
  qed
  have "list_all (\<lambda>v. isdigit (remove_commas v)) (present_numeric body) \<longleftrightarrow>
        list_all (\<lambda>v. matches_digits_commas (remove_commas v)) (present_numeric body)"
    unfolding list_all_iff using same by blast
  then show ?thesis
    by (simp add: Lead_validate_isdigit spec_accepts_def isdigit_accepts_def)
qed

text \<open>
  The examples of the specification: an income of \<open>50,000\<close> with an empty credit score is
  accepted, an income of \<open>50k\<close> is rejected.
\<close>

lemma Lead_validate_examples:
  "accepted (Lead_validate (example_body ''50,000'' '''')) \<and>
   credit_score (projr (Lead_validate (example_body ''50,000'' ''''))) = None \<and>
   \<not> accepted (Lead_validate (example_body ''50k'' ''''))"
  by (simp add: example_body_def validate_defs isdigit_def isdigit_char_def remove_commas_def
      Let_def)


section \<open>A reply that passes the test and decodes is a mapping\<close>

lemma isspace_char_cases:
  assumes "isspace_char c"
  shows "c \<in> set [CHR 0x09, CHR 0x0A, CHR 0x0B, CHR 0x0C, CHR 0x0D, CHR 0x1C, CHR 0x1D,
                   CHR 0x1E, CHR 0x1F, CHR 0x20, CHR 0x85, CHR 0xA0]"
proof -
  from assms
  have "(9 \<le> (of_char c :: nat) \<and> (of_char c :: nat) \<le> 13) \<or>
        (28 \<le> (of_char c :: nat) \<and> (of_char c :: nat) \<le> 32) \<or>
        (of_char c :: nat) = 133 \<or> (of_char c :: nat) = 160"
    by (simp add: isspace_char_def Let_def)
  then have "(of_char c :: nat) \<in> set [9, 10, 11, 12, 13, 28, 29, 30, 31, 32, 133, 160]"
    by (auto simp: le_Suc_eq numeral_eq_Suc)
  also have "set [9, 10, 11, 12, 13, 28, 29, 30, 31, 32, 133, 160] =
             (of_char ` set [CHR 0x09, CHR 0x0A, CHR 0x0B, CHR 0x0C, CHR 0x0D, CHR 0x1C,
                             CHR 0x1D, CHR 0x1E, CHR 0x1F, CHR 0x20, CHR 0x85, CHR 0xA0]
              :: nat set)"
    by simp
  finally show ?thesis
    by (simp only: inj_image_mem_iff [OF inj_of_char])
qed

lemma whitespace_isspace: "c \<in> set WHITESPACE_STR \<Longrightarrow> isspace_char c"
  by (auto simp: WHITESPACE_STR_def isspace_char_def)

lemma tokenize_space_not_json:
  assumes "isspace_char c" and "c \<notin> set WHITESPACE_STR"
  shows "tokenize (c # cs) = None"
proof -
  from isspace_char_cases [OF assms(1)] assms(2)
  have "c = CHR 0x0B \<or> c = CHR 0x0C \<or> c = CHR 0x1C \<or> c = CHR 0x1D \<or> c = CHR 0x1E \<or>
        c = CHR 0x1F \<or> c = CHR 0x85 \<or> c = CHR 0xA0"
    by (auto simp: WHITESPACE_STR_def)
  then show ?thesis
    by (elim disjE) (simp_all add: WHITESPACE_STR_def match_number_def match_integer_def)
qed

lemma tokenize_starts_with_brace:
  "dropWhile isspace_char s = CHR ''{'' # r \<Longrightarrow> tokenize s = Some ts \<Longrightarrow>
   \<exists>ts'. ts = LBrace # ts'"
proof (induction s)
  case Nil
  then show ?case by simp
next
  case (Cons c cs)
  show ?case
  proof (cases "c \<in> set WHITESPACE_STR")
    case True
    then have "isspace_char c" by (rule whitespace_isspace)
    with Cons.prems(1) have d: "dropWhile isspace_char cs = CHR ''{'' # r" by simp
    from True Cons.prems(2) have "tokenize cs = Some ts" by simp
    with d show ?thesis by (rule Cons.IH)
  next
    case False
    show ?thesis
    proof (cases "c = CHR ''{''")
      case True
      have "tokenize (CHR ''{'' # cs) = map_option (Cons LBrace) (tokenize cs)"
        by (simp add: WHITESPACE_STR_def)
      moreover from True Cons.prems(2) have "tokenize (CHR ''{'' # cs) = Some ts"
        by (simp only:)
      ultimately have "map_option (Cons LBrace) (tokenize cs) = Some ts"
        by (simp only:)
      then show ?thesis by auto
    next
      case notbrace: False
      have "isspace_char c"
      proof (rule ccontr)
        assume "\<not> isspace_char c"
        with Cons.prems(1) have "c = CHR ''{''" by simp
        with notbrace show False by simp
      qed
      then have "tokenize (c # cs) = None"
        using False by (rule tokenize_space_not_json)
      with Cons.prems(2) show ?thesis by simp
    qed
  qed
qed

lemma strip_head:
  assumes "startswith (strip s) [c]"
  shows "\<exists>r. dropWhile isspace_char s = c # r"
proof -
  let ?t = "dropWhile isspace_char s"
  have "?t = rev (dropWhile isspace_char (rev ?t)) @ rev (takeWhile isspace_char (rev ?t))"
    by (metis rev_append rev_rev_ident takeWhile_dropWhile_id)
  then have "?t = strip s @ rev (takeWhile isspace_char (rev ?t))"
    by (simp only: strip_def)
  moreover from assms obtain r where "strip s = c # r"
    by (cases "strip s") (auto simp: startswith_def)
  ultimately have "?t = c # (r @ rev (takeWhile isspace_char (rev ?t)))" by simp
  then show ?thesis by blast
qed

lemma bottom_push: "bottom_is_object st \<Longrightarrow> bottom_is_object (f # st)"
  by (simp add: bottom_is_object_def)

lemma bottom_replace:
  "bottom_is_object (ArrayFrame values # st) \<Longrightarrow> bottom_is_object (ArrayFrame values' # st)"
  "bottom_is_object (ObjectFrame pairs key # st) \<Longrightarrow>
   bottom_is_object (ObjectFrame pairs' key' # st)"
  by (auto simp: bottom_is_object_def)

lemma finish_value_object:
  "bottom_is_object st \<Longrightarrow> object_document (finish_value v st)"
proof (cases st)
  case Nil
  assume "bottom_is_object st"
  with Nil show ?thesis by (simp add: bottom_is_object_def)
next
  case (Cons f st')
  assume b: "bottom_is_object st"
  show ?thesis
  proof (cases f)
    case (ArrayFrame vs)
    with b Cons show ?thesis by (auto intro: bottom_replace)
  next
    case (ObjectFrame pairs key)
    with b Cons show ?thesis by (auto intro: bottom_replace)
  qed
qed

lemma finish_popped:
  "bottom_is_object (ObjectFrame pairs key # st) \<Longrightarrow>
   object_document (finish_value (PyDict d) st)"
  "bottom_is_object (ArrayFrame values # st) \<Longrightarrow>
   object_document (finish_value v st)"
proof -
  show "object_document (finish_value (PyDict d) st)"
    if "bottom_is_object (ObjectFrame pairs key # st)"
  proof (cases "st = []")
    case True
    then show ?thesis by (simp add: is_dict_def)
  next
    case False
    with that have "bottom_is_object st" by (simp add: bottom_is_object_def)
    then show ?thesis by (rule finish_value_object)
  qed
  show "object_document (finish_value v st)" if "bottom_is_object (ArrayFrame values # st)"
  proof (cases "st = []")
    case True
    with that show ?thesis by (simp add: bottom_is_object_def)
  next
    case False
    with that have "bottom_is_object st" by (simp add: bottom_is_object_def)
    then show ?thesis by (rule finish_value_object)
  qed
qed

lemma begin_value_object:
  "bottom_is_object st \<Longrightarrow> begin_value t st = Some s' \<Longrightarrow> object_document s'"
  by (cases t) (auto intro: bottom_push finish_value_object)

lemma step_object:
  "object_document s \<Longrightarrow> step s t = Some s' \<Longrightarrow> object_document s'"
  by (cases "(s, t)" rule: step.cases)
     (auto dest: begin_value_object
           intro: finish_popped bottom_replace bottom_push finish_value_object)

lemma run_object:
  "object_document s \<Longrightarrow> run s ts = Some s' \<Longrightarrow> object_document s'"
proof (induction ts arbitrary: s)
  case Nil
  then show ?case by simp
next
  case (Cons t ts)
  from Cons.prems(2) obtain s1 where s1: "step s t = Some s1" and r: "run s1 ts = Some s'"
    by (auto split: option.splits)
  from Cons.prems(1) s1 have "object_document s1" by (rule step_object)
  then show ?case using r by (rule Cons.IH)
qed

lemma loads_prefiltered_is_dict:
  assumes "prefilter content" and "json_loads content = Inr v"
  shows "\<exists>d. v = PyDict d"
proof -
  from assms(1) have "startswith (strip content) [CHR ''{'']"
    by (simp add: prefilter_def)
  then obtain r where d: "dropWhile isspace_char content = CHR ''{'' # r"
    using strip_head by blast
  from assms(2) obtain ts st where t: "tokenize content = Some ts"
    and f: "run (Value, []) ts = Some (EndOfDocument v, st)"
    by (auto simp: json_loads_def split: option.splits prod.splits expect.splits)
  from d t obtain ts' where ts: "ts = LBrace # ts'"
    using tokenize_starts_with_brace by blast
  with f have "run (KeyOrEnd, [ObjectFrame [] []]) ts' = Some (EndOfDocument v, st)"
    by simp
  moreover have "object_document (KeyOrEnd, [ObjectFrame [] []])"
    by (simp add: bottom_is_object_def)
  ultimately have "object_document (EndOfDocument v, st)"
    by (rule run_object [rotated])
  then show ?thesis by (cases v) (simp_all add: is_dict_def)
qed


section \<open>The extraction of the replies\<close>

lemma extract_responses_snoc:
  "extract_responses fl (ms @ [m]) = extract_message fl (extract_responses fl ms) m"
  by (simp add: extract_responses_def)

lemma extract_message_skip:
  "\<not> advisor_authored m \<Longrightarrow> extract_message fl results m = results"
  by (auto simp: extract_message_def advisor_authored_def)

lemma extract_message_advisor:
  "advisor_authored m \<Longrightarrow> msg_content m = Some content \<Longrightarrow>
   extract_message fl results m =
     results(msg_name m \<mapsto>
       (if prefilter content
        then (case json_loads content of
                Inl _ \<Rightarrow> error_sentinel ''Invalid JSON from AI''
              | Inr v \<Rightarrow> if truthy fl v then v else error_sentinel ''Malformed JSON from AI'')
        else error_sentinel ''Malformed JSON from AI''))"
  by (auto simp: extract_message_def advisor_authored_def prefilter_def error_sentinel_def
      Let_def split: sum.splits JSONDecodeError.splits)

lemma extract_message_at:
  "extract_message fl results m a =
     (if advisor_authored m \<and> msg_name m = a then extract_message fl Map.empty m a
      else results a)"
  by (auto simp: extract_message_def advisor_authored_def Let_def
      split: sum.splits JSONDecodeError.splits)

lemma extract_message_records:
  "advisor_authored m \<Longrightarrow> \<exists>advice. extract_message fl results m (msg_name m) = Some advice"
  by (auto simp: extract_message_def advisor_authored_def Let_def
      split: sum.splits JSONDecodeError.splits)

lemma extract_responses_last:
  "filter (\<lambda>m. advisor_authored m \<and> msg_name m = a) ms \<noteq> [] \<Longrightarrow>
   extract_responses fl ms a =
     extract_message fl Map.empty
       (last (filter (\<lambda>m. advisor_authored m \<and> msg_name m = a) ms)) a"
proof (induction ms rule: rev_induct)
  case Nil
  then show ?case by simp
next
  case (snoc m ms)
  show ?case
  proof (cases "advisor_authored m \<and> msg_name m = a")
    case True
    then show ?thesis
      using extract_message_at [of fl "extract_responses fl ms" m a]
      by (simp add: extract_responses_snoc)
  next
    case False
    with snoc.prems have "filter (\<lambda>m. advisor_authored m \<and> msg_name m = a) ms \<noteq> []"
      by auto
    with snoc.IH False show ?thesis
      using extract_message_at [of fl "extract_responses fl ms" m a]
      by (auto simp add: extract_responses_snoc)
  qed
qed

subsection \<open>The texts of the examples\<close>

lemmas prefilter_defs = prefilter_def strip_def isspace_char_def startswith_def endswith_def

lemma prefilter_not_json: "\<not> prefilter ''not json''"
  by (simp add: prefilter_defs)

lemma prefilter_bad_open: "\<not> prefilter ''{bad''"
  by (simp add: prefilter_defs)

lemma prefilter_bad_closed: "prefilter ''{bad}''"
  by (simp add: prefilter_defs)

lemma loads_bad_closed: "json_loads ''{bad}'' = Inl JSONDecodeError"
  by (simp add: json_loads_def WHITESPACE_STR_def match_number_def match_integer_def)

lemma prefilter_empty_object: "prefilter ''{}''"
  by (simp add: prefilter_defs)

lemma loads_empty_object: "json_loads ''{}'' = Inr (PyDict [])"
  by (simp add: json_loads_def WHITESPACE_STR_def dict_def)

lemma prefilter_priority_high: "prefilter priority_high_text"
  by (simp add: priority_high_text_def prefilter_defs)

lemma loads_priority_high:
  "json_loads priority_high_text =
     Inr (PyDict [(cps ''priority'', PyStr (cps ''high'')),
                  (cps ''reasoning'', PyStr (cps ''x''))])"
  by (simp add: priority_high_text_def json_loads_def WHITESPACE_STR_def dict_def cps_def)

lemma sentinels_differ:
  "error_sentinel ''Malformed JSON from AI'' \<noteq> error_sentinel ''Invalid JSON from AI''"
  by (simp add: error_sentinel_def cps_def)

text \<open>
  Claim C2 expects the sentinel \<open>Invalid JSON from AI\<close> for the reply \<open>{bad\<close>. That text
  does not end with a closing brace, so it fails the test made before decoding and the
  sentinel recorded is \<open>Malformed JSON from AI\<close>.
\<close>

theorem bad_open_counterexample:
  "extract_responses example_float [advisor_turn ''LeadQualificationAgent'' ''{bad'']
     ''LeadQualificationAgent'' = Some (error_sentinel ''Malformed JSON from AI'') \<and>
   error_sentinel ''Malformed JSON from AI'' \<noteq> error_sentinel ''Invalid JSON from AI''"
  by (simp add: extract_responses_def extract_message_advisor [where content = "''{bad''"]
      advisor_authored_def advisor_turn_def prefilter_bad_open sentinels_differ)

text \<open>
  C2, as amended: for every advisor-authored turn, whatever was recorded before, the
  extractor records under the name of the speaker the sentinel
  \<open>{error: "Malformed JSON from AI"}\<close> when the reply is \<open>not json\<close>, the same sentinel
  when the reply is \<open>{bad\<close>, and exactly the decoded mapping
  \<open>{priority: "high", reasoning: "x"}\<close> when the reply is the text of that object.
\<close>

theorem extract_message_examples:
  assumes "advisor_authored m"
  shows "(msg_content m = Some ''not json'' \<longrightarrow>
            extract_message fl results m =
              results(msg_name m \<mapsto> error_sentinel ''Malformed JSON from AI'')) \<and>
         (msg_content m = Some ''{bad'' \<longrightarrow>
            extract_message fl results m =
              results(msg_name m \<mapsto> error_sentinel ''Malformed JSON from AI'')) \<and>
         (msg_content m = Some priority_high_text \<longrightarrow>
            extract_message fl results m =
              results(msg_name m \<mapsto>
                PyDict [(cps ''priority'', PyStr (cps ''high'')),
                        (cps ''reasoning'', PyStr (cps ''x''))]))"
  using assms
  by (simp add: extract_message_advisor prefilter_not_json prefilter_bad_open
      prefilter_priority_high loads_priority_high)

theorem extract_message_examples_witness:
  "advisor_authored (advisor_turn ''LeadQualificationAgent'' priority_high_text) \<and>
   extract_message example_float Map.empty
     (advisor_turn ''LeadQualificationAgent'' priority_high_text) =
   [''LeadQualificationAgent'' \<mapsto>
      PyDict [(cps ''priority'', PyStr (cps ''high'')), (cps ''reasoning'', PyStr (cps ''x''))]]"
  using extract_message_examples
    [of "advisor_turn ''LeadQualificationAgent'' priority_high_text" example_float Map.empty]
  by (simp add: advisor_authored_def advisor_turn_def)

text \<open>
  The sentinel \<open>Invalid JSON from AI\<close> is the one recorded for a reply that passes the test
  made before decoding and is then refused by the decoder, such as \<open>{bad}\<close>.
\<close>

lemma bad_closed_recorded_as_invalid:
  "extract_responses example_float [advisor_turn ''LeadQualificationAgent'' ''{bad}'']
     ''LeadQualificationAgent'' = Some (error_sentinel ''Invalid JSON from AI'')"
  by (simp add: extract_responses_def extract_message_advisor [where content = "''{bad}''"]
      advisor_authored_def advisor_turn_def prefilter_bad_closed loads_bad_closed)

text \<open>
  C3: for every advisor-authored turn whose reply, trimmed, begins with an opening and ends
  with a closing brace and decodes, the decoded mapping itself, an empty mapping included,
  becomes the advice of the speaker and no error sentinel is recorded. The code departs
  from this at the reply \<open>{}\<close>: it passes the test made before decoding and decodes to the
  empty mapping, and the extractor records \<open>{error: "Malformed JSON from AI"}\<close>, because
  the test \<open>if parsed_content\<close> also takes a decoded empty mapping for the empty \<open>dict\<close>
  that stands for a reply that did not look like JSON.
\<close>

theorem empty_object_recorded_as_malformed:
  "prefilter ''{}'' \<and> json_loads ''{}'' = Inr (PyDict []) \<and>
   extract_responses example_float [advisor_turn ''LeadQualificationAgent'' ''{}'']
     ''LeadQualificationAgent'' = Some (error_sentinel ''Malformed JSON from AI'')"
  by (simp add: extract_responses_def extract_message_advisor [where content = "''{}''"]
      advisor_authored_def advisor_turn_def prefilter_empty_object loads_empty_object)

text \<open>
  A reply that passes the test and decodes always decodes to a mapping, and every mapping
  but the empty one is recorded as it is, with no test of its fields.
\<close>

lemma decoded_reply_recorded:
  assumes "advisor_authored m" and "msg_content m = Some content" and "prefilter content"
    and "json_loads content = Inr v"
  shows "\<exists>d. v = PyDict d \<and>
             extract_message fl results m =
               results(msg_name m \<mapsto>
                 (if d = [] then error_sentinel ''Malformed JSON from AI'' else PyDict d))"
proof -
  from assms(3,4) obtain d where "v = PyDict d"
    using loads_prefiltered_is_dict by blast
  with assms show ?thesis by (simp add: extract_message_advisor)
qed

text \<open>
  C5: every turn of the collected sequence that comes from the driving participant, the
  one named \<open>User\<close>, is skipped whatever its content: the extraction gives the same result
  as on the sequence without that turn.
\<close>

theorem driver_turn_skipped:
  assumes "msg_name m = ''User''"
  shows "extract_responses fl (before @ m # after) = extract_responses fl (before @ after)"
  using assms by (simp add: extract_responses_def extract_message_skip advisor_authored_def)

theorem driver_turn_skipped_witness:
  "msg_name user_turn = ''User'' \<and>
   msg_content user_turn = Some priority_high_text \<and>
   extract_responses example_float [user_turn] = Map.empty"
  using driver_turn_skipped [of user_turn example_float "[]" "[]"]
  by (simp add: user_turn_def extract_responses_def)

text \<open>
  C7: when a sequence holds two or more advisor-authored turns of the same agent, the
  result of the extraction holds one advice for that agent, and it is the advice that the
  last of these turns gives on its own.
\<close>

theorem last_write_wins:
  assumes "2 \<le> length (filter (\<lambda>m. advisor_authored m \<and> msg_name m = agent) messages)"
  shows "\<exists>advice.
           extract_responses fl messages agent = Some advice \<and>
           extract_responses fl
             [last (filter (\<lambda>m. advisor_authored m \<and> msg_name m = agent) messages)] agent
             = Some advice"
proof -
  let ?turns = "filter (\<lambda>m. advisor_authored m \<and> msg_name m = agent) messages"
  from assms have ne: "?turns \<noteq> []" by auto
  then have "last ?turns \<in> set ?turns" by (rule last_in_set)
  then have adv: "advisor_authored (last ?turns)" and nm: "msg_name (last ?turns) = agent"
    by auto
  from extract_message_records [OF adv, of fl Map.empty] nm
  obtain advice where a: "extract_message fl Map.empty (last ?turns) agent = Some advice"
    by auto
  have "extract_responses fl messages agent = Some advice"
    using extract_responses_last [OF ne, of fl] a by simp
  moreover have "extract_responses fl [last ?turns] agent = Some advice"
    using a by (simp add: extract_responses_def)
  ultimately show ?thesis by blast
qed

theorem last_write_wins_witness:
  "2 \<le> length (filter (\<lambda>m. advisor_authored m \<and> msg_name m = ''LeadQualificationAgent'')
                  two_turns) \<and>
   extract_responses example_float two_turns ''LeadQualificationAgent'' =
     Some (error_sentinel ''Malformed JSON from AI'')"
proof -
  have two: "2 \<le> length (filter (\<lambda>m. advisor_authored m \<and>
                                    msg_name m = ''LeadQualificationAgent'') two_turns)"
    by (simp add: two_turns_def advisor_authored_def advisor_turn_def)
  have lst: "last (filter (\<lambda>m. advisor_authored m \<and> msg_name m = ''LeadQualificationAgent'')
                  two_turns) = advisor_turn ''LeadQualificationAgent'' ''not json''"
    by (simp add: two_turns_def advisor_authored_def advisor_turn_def)
  have "extract_responses example_float [advisor_turn ''LeadQualificationAgent'' ''not json'']
          ''LeadQualificationAgent'' = Some (error_sentinel ''Malformed JSON from AI'')"
    by (simp add: extract_responses_def extract_message_advisor [where content = "''not json''"]
        advisor_authored_def advisor_turn_def prefilter_not_json)
  with last_write_wins [OF two, of example_float] two show ?thesis
    by (simp add: lst)
qed


section \<open>The combined result\<close>

text \<open>
  C4: for every sequence of turns, the empty one included, the combined result holds
  exactly the six keys \<open>qualification\<close>, \<open>financial_strategy\<close>, \<open>policy\<close>,
  \<open>anti_iul_critique\<close>, \<open>risk_assessment\<close> and \<open>followup\<close>, each with the advice of its
  agent when the extraction recorded one and otherwise with the placeholder of the agent,
  which sets each of the fields that the agent declares, and no other, to \<open>"N/A"\<close>.
\<close>

theorem combine_results_total:
  "combine_results (extract_responses fl messages) =
     PyDict (map (\<lambda>(key, agent).
                    (cps key,
                     case extract_responses fl messages agent of
                       None \<Rightarrow> placeholder agent
                     | Some advice \<Rightarrow> advice))
                 roles) \<and>
   map fst roles =
     [''qualification'', ''financial_strategy'', ''policy'', ''anti_iul_critique'',
      ''risk_assessment'', ''followup'']"
  by (simp add: combine_results_def roles_def dict_get_def placeholder_def output_fields_def
      split: option.splits)

theorem combine_results_total_witness:
  "combine_results (extract_responses example_float []) = all_placeholders"
  using combine_results_total [of example_float "[]"]
  by (simp add: extract_responses_def roles_def placeholder_def output_fields_def
      all_placeholders_def)

lemma combine_no_turns:
  "combine_results (extract_responses fl []) = all_placeholders"
  by (simp add: extract_responses_def combine_results_def dict_get_def all_placeholders_def)

lemma dumps_all_placeholders:
  "json_dumps fl all_placeholders = all_placeholders_text"
  by (simp add: all_placeholders_def all_placeholders_text_def cps_def
      encode_basestring_ascii_def escape_ascii_def char_of_def bit_Suc_0_iff)


section \<open>The pipeline\<close>

text \<open>
  C6: every run that reaches assembly hands exactly one row to the ledger; its columns
  are, in this order, \<open>name\<close>, \<open>income\<close>, \<open>savings\<close>, \<open>credit_score\<close>, \<open>dob\<close>, \<open>lump_sum\<close>,
  \<open>monthly_contribution\<close>, \<open>goals\<close> and the combined result as one JSON text, and an
  optional field that is absent is written as \<open>N/A\<close> and one that is given is written as
  it is. A run reaches assembly when the
  conversation returns a transcript; the row is handed over whether or not the ledger then
  raises.
\<close>

theorem one_ledger_row:
  assumes "a_initiate_chat e (initial_message lead) = Inr messages"
  shows "snd (process_lead_pipeline fl e lead) =
           [[name lead, income lead, savings lead,
             or_NA (credit_score lead), or_NA (dob lead), or_NA (lump_sum lead),
             or_NA (monthly_contribution lead), goals lead,
             json_dumps fl (combine_results (extract_responses fl messages))]] \<and>
         or_NA None = ''N/A'' \<and>
         (v \<noteq> [] \<longrightarrow> or_NA (Some v) = v)"
  using assms
  by (simp add: process_lead_pipeline_def ledger_row_def or_NA_def Let_def split: option.splits)

theorem one_ledger_row_witness:
  "a_initiate_chat (example_env [] None) (initial_message example_lead) = Inr [] \<and>
   snd (process_lead_pipeline example_float (example_env [] None) example_lead) =
     [[''Ann'', ''50,000'', ''1,000'', ''N/A'', ''N/A'', ''N/A'', ''N/A'', ''retire'',
       all_placeholders_text]]"
proof -
  have chat: "a_initiate_chat (example_env [] None) (initial_message example_lead) = Inr []"
    by (simp add: example_env_def)
  from one_ledger_row [OF chat, of example_float] chat show ?thesis
    by (simp add: example_lead_def or_NA_def combine_no_turns dumps_all_placeholders)
qed






text \<open>
  C10: in every successful run, the field \<open>ai_analysis\<close> of the response is, character for
  character, the JSON text in the last column of the one row handed to the ledger.
\<close>

theorem response_matches_ledger:
  assumes "process_lead_pipeline fl e lead = (Inr r, rows)" and "status r = ''success''"
  shows "\<exists>row. rows = [row] \<and> length row = 9 \<and> ai_analysis r = Some (row ! 8)"
  using assms
  by (auto simp: process_lead_pipeline_def handle_exception_def ledger_row_def Let_def
      split: sum.splits option.splits exc.splits)

theorem response_matches_ledger_witness:
  "process_lead_pipeline example_float (example_env [] None) example_lead =
     (Inr \<lparr>status = ''success'', message = ''Lead processed successfully!'',
           ai_analysis = Some all_placeholders_text\<rparr>,
      [ledger_row example_lead all_placeholders_text]) \<and>
   ai_analysis \<lparr>status = ''success'', message = ''Lead processed successfully!'',
           ai_analysis = Some all_placeholders_text\<rparr> =
     Some (ledger_row example_lead all_placeholders_text ! 8)"
proof -
  have run: "process_lead_pipeline example_float (example_env [] None) example_lead =
     (Inr \<lparr>status = ''success'', message = ''Lead processed successfully!'',
           ai_analysis = Some all_placeholders_text\<rparr>,
      [ledger_row example_lead all_placeholders_text])"
    by (simp add: process_lead_pipeline_def example_env_def combine_no_turns
        dumps_all_placeholders Let_def)
  from response_matches_ledger [OF run] run show ?thesis
    by simp
qed

end
